theory Spec2Isabelle
  imports Main
begin

section \<open>Python values used by http-server.py\<close>

text \<open>
  A Python \<open>bytes\<close> object is a list of 8-bit characters, and \<open>len\<close> of it is \<open>length\<close>.
  A Python \<open>str\<close> is represented by the bytes it stands for: its UTF-8 encoding, or, for
  a \<open>str\<close> in which bytes that are not UTF-8 are kept as surrogate escapes (as
  \<open>os.listdir\<close> returns such a file name), those bytes. \<open>decode\<close> and \<open>encode\<close> below
  are \<open>bytes.decode()\<close> and \<open>str.encode()\<close> on this representation. The program never
  takes the length of a \<open>str\<close>, and splitting on the ASCII space gives the same tokens
  on the bytes.
\<close>

type_synonym bytes = string

definition PACKET_SIZE :: nat where
  "PACKET_SIZE = 1024"

definition ROOT_DIR :: string where
  "ROOT_DIR = ''public''"

definition CR :: char where
  "CR = CHR 0x0D"

definition LF :: char where
  "LF = CHR 0x0A"

definition CRLF :: string where
  "CRLF = [CR, LF]"

text \<open>Exceptions that can be raised while the program runs.\<close>

datatype exn =
    SystemExit int
  | IndexError
  | OSError
  | UnicodeDecodeError
  | UnicodeEncodeError
  | ValueError
  | OverflowError
  | TimeoutError

text \<open>What the process does to the outside world, in order.\<close>

datatype effect =
    Print string
  | Bind string int
  | Send bytes
  | CloseClient
  | CloseServer

text \<open>
  The value bound to \<open>request_mime_type\<close>: a \<open>str\<close> (\<open>''\<close> or \<open>'text/plain'\<close>) or the
  pair \<open>(type, encoding)\<close> that \<open>mimetypes.guess_type\<close> returns, each component a \<open>str\<close>
  or \<open>None\<close>.
\<close>

datatype mime_value =
    PyStr string
  | PyTuple "string option" "string option"

text \<open>\<open>str(n)\<close> for a non-negative integer: its decimal digits, most significant first.\<close>

fun str_nat :: "nat \<Rightarrow> string" where
  "str_nat n =
     (if n < 10 then [''0123456789'' ! n]
      else str_nat (n div 10) @ [''0123456789'' ! (n mod 10)])"

declare str_nat.simps [simp del]

definition str_int :: "int \<Rightarrow> string" where
  "str_int i = (if i < 0 then CHR ''-'' # str_nat (nat (- i)) else str_nat (nat i))"

text \<open>
  \<open>repr\<close> of \<open>None\<close> or of a \<open>str\<close>; the built-in \<open>repr\<close> on \<open>str\<close> (quoting and escaping)
  is a parameter \<open>r\<close>.
\<close>

fun repr_opt :: "(string \<Rightarrow> string) \<Rightarrow> string option \<Rightarrow> string" where
  "repr_opt r None = ''None''"
| "repr_opt r (Some s) = r s"

text \<open>The text an f-string replacement field \<open>{v}\<close> produces for \<open>v\<close>.\<close>

fun format_value :: "(string \<Rightarrow> string) \<Rightarrow> mime_value \<Rightarrow> string" where
  "format_value r (PyStr s) = s"
| "format_value r (PyTuple t enc) = ''('' @ repr_opt r t @ '', '' @ repr_opt r enc @ '')''"

text \<open>\<open>xs[i]\<close> for a non-negative index: \<open>IndexError\<close> out of range.\<close>

definition getitem :: "'a list \<Rightarrow> nat \<Rightarrow> exn + 'a" where
  "getitem xs i = (if i < length xs then Inr (xs ! i) else Inl IndexError)"

text \<open>
  \<open>s.split(sep)\<close> with an explicit one-character separator: every occurrence separates,
  adjacent separators give empty tokens, and the result is never empty.
\<close>

fun split_on :: "char \<Rightarrow> string \<Rightarrow> string list" where
  "split_on sep [] = [[]]"
| "split_on sep (c # cs) =
     (if c = sep then [] # split_on sep cs
      else (case split_on sep cs of
              [] \<Rightarrow> [[c]]
            | w # ws \<Rightarrow> (c # w) # ws))"

text \<open>
  \<open>bytes.decode()\<close>: strict UTF-8. Well-formed sequences are those of the Unicode
  standard (no overlong forms, no surrogates, nothing above U+10FFFF).
\<close>

definition cont_byte :: "nat \<Rightarrow> bool" where
  "cont_byte b = (0x80 \<le> b \<and> b \<le> 0xBF)"

fun utf8_valid :: "nat list \<Rightarrow> bool" where
  "utf8_valid [] = True"
| "utf8_valid (a # r) =
     (if a < 0x80 then utf8_valid r
      else if 0xC2 \<le> a \<and> a \<le> 0xDF then
        (case r of
           b # r1 \<Rightarrow> cont_byte b \<and> utf8_valid r1
         | _ \<Rightarrow> False)
      else if 0xE0 \<le> a \<and> a \<le> 0xEF then
        (case r of
           b # c # r2 \<Rightarrow>
             (if a = 0xE0 then 0xA0 \<le> b \<and> b \<le> 0xBF
              else if a = 0xED then 0x80 \<le> b \<and> b \<le> 0x9F
              else cont_byte b)
             \<and> cont_byte c \<and> utf8_valid r2
         | _ \<Rightarrow> False)
      else if 0xF0 \<le> a \<and> a \<le> 0xF4 then
        (case r of
           b # c # d # r3 \<Rightarrow>
             (if a = 0xF0 then 0x90 \<le> b \<and> b \<le> 0xBF
              else if a = 0xF4 then 0x80 \<le> b \<and> b \<le> 0x8F
              else cont_byte b)
             \<and> cont_byte c \<and> cont_byte d \<and> utf8_valid r3
         | _ \<Rightarrow> False)
      else False)"

definition decode :: "bytes \<Rightarrow> exn + string" where
  "decode data = (if utf8_valid (map of_char data) then Inr data else Inl UnicodeDecodeError)"

text \<open>
  \<open>str.encode()\<close>: strict UTF-8. A \<open>str\<close> that holds surrogate escapes cannot be encoded
  and \<open>UnicodeEncodeError\<close> is raised. The string literals of the program are ASCII and
  always encode; \<open>encode\<close> is written out where the text holds a path or a file name.
\<close>

definition encodable :: "string \<Rightarrow> bool" where
  "encodable s = utf8_valid (map of_char s)"

definition encode :: "string \<Rightarrow> exn + bytes" where
  "encode s = (if encodable s then Inr s else Inl UnicodeEncodeError)"

section \<open>The operating system\<close>

text \<open>
  What a path names. \<open>File bs\<close> is a regular file that can be opened and read, with
  contents \<open>bs\<close>; \<open>Dir names\<close> is a directory that can be listed; \<open>NoAccessFile\<close> exists but
  \<open>open\<close> fails (for example \<open>PermissionError\<close>); \<open>NoAccessDir\<close> is a directory whose
  listing fails. A path that names nothing is \<open>None\<close>. The names of a directory are
  the entry names as \<open>os.listdir\<close> returns them; one that is not UTF-8 is a \<open>str\<close> with
  surrogate escapes.

  A path with a NUL character never reaches the file system: \<open>os.path.isdir\<close> answers
  \<open>False\<close>, and \<open>open\<close> and \<open>os.listdir\<close> raise \<open>ValueError\<close>, which is not an
  \<open>OSError\<close>.
\<close>

datatype node =
    File bytes
  | Dir "string list"
  | NoAccessFile
  | NoAccessDir

text \<open>
  Everything the program reads from outside itself: the file system, and the library
  functions whose tables or algorithms are not part of the program. \<open>guess_type\<close> is
  \<open>mimetypes.guess_type\<close>; \<open>repr\<close> is the built-in \<open>repr\<close> on \<open>str\<close>; \<open>py_int\<close> is the
  built-in \<open>int\<close> on \<open>str\<close>, \<open>None\<close> where it raises \<open>ValueError\<close>; \<open>bind_error\<close> is the
  exception \<open>s.bind\<close> raises for a host and port, \<open>None\<close> where it succeeds. Creating the
  socket, \<open>listen\<close>, \<open>recv\<close>, \<open>send\<close> and \<open>close\<close> are taken to succeed.
\<close>

record env =
  fs :: "string \<Rightarrow> node option"
  guess_type :: "string \<Rightarrow> string option \<times> string option"
  repr :: "string \<Rightarrow> string"
  py_int :: "string \<Rightarrow> int option"
  bind_error :: "string \<Rightarrow> int \<Rightarrow> exn option"

text \<open>\<open>os.path.isdir\<close>: true for a directory, false for anything else and for a missing path.\<close>

definition os_path_isdir :: "env \<Rightarrow> string \<Rightarrow> bool" where
  "os_path_isdir e path =
     (if CHR 0x00 \<in> set path then False
      else (case fs e path of
              Some (Dir names) \<Rightarrow> True
            | Some NoAccessDir \<Rightarrow> True
            | _ \<Rightarrow> False))"

text \<open>\<open>os.listdir\<close>: the entry names, or an exception.\<close>

definition os_listdir :: "env \<Rightarrow> string \<Rightarrow> exn + string list" where
  "os_listdir e path =
     (if CHR 0x00 \<in> set path then Inl ValueError
      else (case fs e path of
              Some (Dir names) \<Rightarrow> Inr names
            | _ \<Rightarrow> Inl OSError))"

text \<open>\<open>open(path, 'rb')\<close> followed by \<open>f.read()\<close>: the contents, or an exception.\<close>

definition open_read :: "env \<Rightarrow> string \<Rightarrow> exn + bytes" where
  "open_read e path =
     (if CHR 0x00 \<in> set path then Inl ValueError
      else (case fs e path of
              Some (File bs) \<Rightarrow> Inr bs
            | _ \<Rightarrow> Inl OSError))"

section \<open>Response builders\<close>

definition not_found_page :: bytes where
  "not_found_page = ''<html><h1>Not found!</h1></html>''"

text \<open>
  \<open>generate_not_found_response\<close>. The Content-Length line is an ordinary string literal,
  not an f-string, so its braces and the expression between them are sent as written.
\<close>

definition generate_not_found_response :: bytes where
  "generate_not_found_response =
     (let response = ''HTTP/1.1 404 Not Found'' @ CRLF;
          response = response @ ''Connection: close'' @ CRLF;
          response = response @ ''Content-Type: text/html'' @ CRLF;
          response = response @ ''Content-Length: {len(not_found_page)}'' @ CRLF @ CRLF;
          response = response @ not_found_page
      in response)"

text \<open>\<open>generate_ok_response\<close>: both header values are f-string fields.\<close>

definition generate_ok_response :: "env \<Rightarrow> bytes \<Rightarrow> mime_value \<Rightarrow> bytes" where
  "generate_ok_response e request_data request_mime_type =
     (let response = ''HTTP/1.1 OK 200'' @ CRLF;
          response = response @ ''Connection: close'' @ CRLF;
          response = response @ ''Content-Type: '' @ format_value (repr e) request_mime_type @ CRLF;
          response = response @ ''Content-Length: '' @ str_nat (length request_data) @ CRLF @ CRLF;
          response = response @ request_data
      in response)"

section \<open>Resource resolver\<close>

text \<open>
  The \<open>for file in files\<close> loop: each round encodes the name and a newline, appends
  them, and is also where \<open>request_mime_type\<close> is set to \<open>'text/plain'\<close>. A name that
  cannot be encoded raises \<open>UnicodeEncodeError\<close> and ends the loop.
\<close>

fun listing :: "string list \<Rightarrow> bytes \<times> mime_value \<Rightarrow> exn + bytes \<times> mime_value" where
  "listing [] acc = Inr acc"
| "listing (file # files) (request_data, request_mime_type) =
     (case encode (file @ [LF]) of
        Inl err \<Rightarrow> Inl err
      | Inr line \<Rightarrow> listing files (request_data @ line, PyStr ''text/plain''))"

text \<open>
  The \<open>except OSError\<close> clause: an \<open>OSError\<close> is caught, a message is printed and the
  function goes on to its \<open>return\<close> with whatever the two variables hold; any other
  exception leaves the function.
\<close>

definition except_OSError ::
  "exn \<Rightarrow> bytes \<Rightarrow> mime_value \<Rightarrow> effect list \<times> (exn + bytes \<times> mime_value)" where
  "except_OSError err request_data request_mime_type =
     (if err = OSError then
        ([Print ''[!] Error: File does not exist.''], Inr (request_data, request_mime_type))
      else ([], Inl err))"

text \<open>
  \<open>get_request_data\<close>. The header of a listing is encoded and appended before
  \<open>os.listdir\<close> is called. Every exception raised inside the \<open>try\<close> block meets the
  \<open>except OSError\<close> clause.
\<close>

definition get_request_data ::
  "env \<Rightarrow> string \<Rightarrow> effect list \<times> (exn + bytes \<times> mime_value)" where
  "get_request_data e request_uri =
     (let path = ROOT_DIR @ request_uri;
          request_data = [];
          request_mime_type = PyStr ''''
      in if os_path_isdir e path then
           (case encode (''Contents of '' @ path @ [LF, LF]) of
              Inl err \<Rightarrow> except_OSError err request_data request_mime_type
            | Inr header \<Rightarrow>
                (let request_data = request_data @ header
                 in case os_listdir e path of
                      Inl err \<Rightarrow> except_OSError err request_data request_mime_type
                    | Inr files \<Rightarrow>
                        (case listing files (request_data, request_mime_type) of
                           Inl err \<Rightarrow> except_OSError err request_data request_mime_type
                         | Inr result \<Rightarrow> ([], Inr result))))
         else
           (case open_read e path of
              Inl err \<Rightarrow> except_OSError err request_data request_mime_type
            | Inr contents \<Rightarrow>
                ([], Inr (request_data @ contents,
                          PyTuple (fst (guess_type e path)) (snd (guess_type e path))))))"

section \<open>Request parser\<close>

text \<open>
  \<open>parse_request_line\<close>: the printed lines and either the URI or the exception that
  leaves the function (\<open>sys.exit(1)\<close> raises \<open>SystemExit(1)\<close>).
\<close>

definition parse_request_line :: "string \<Rightarrow> effect list \<times> (exn + string)" where
  "parse_request_line request =
     (case getitem (split_on CHR '' '' request) 0 of
        Inl x \<Rightarrow> ([], Inl x)
      | Inr request_method \<Rightarrow>
          if request_method \<noteq> ''GET'' then
            ([Print ''[!] Error: This server only handles GET requests.''], Inl (SystemExit 1))
          else
            (case getitem (split_on CHR '' '' request) 1 of
               Inl x \<Rightarrow> ([], Inl x)
             | Inr request_uri \<Rightarrow> ([], Inr request_uri)))"

section \<open>Listener\<close>

text \<open>
  What \<open>s.accept()\<close> delivers next: a client together with the bytes it has sent by the
  time of \<open>recv\<close>, a keyboard interrupt, or the 60 second timeout of the listening socket.
\<close>

datatype event =
    Connection bytes
  | Interrupt
  | AcceptTimeout

text \<open>How \<open>run_server\<close> ends: blocked in \<open>accept\<close> with nothing more to come, returned
  after the \<open>break\<close>, or left by an exception that nothing catches.\<close>

datatype status =
    Blocked
  | Returned
  | Raised exn

text \<open>
  The body of the \<open>try\<close> block for one accepted client (lines 108 to 124): receive at most
  \<open>PACKET_SIZE\<close> bytes, decode, parse, resolve, build, send, close. An exception leaves
  the block before anything is sent.
\<close>

definition serve_connection :: "env \<Rightarrow> bytes \<Rightarrow> effect list \<times> (exn + unit)" where
  "serve_connection e sent =
     (let data = take PACKET_SIZE sent
      in case decode data of
           Inl x \<Rightarrow> ([], Inl x)
         | Inr request \<Rightarrow>
             (case parse_request_line request of
                (out, Inl x) \<Rightarrow> (out, Inl x)
              | (out, Inr request_uri) \<Rightarrow>
                  (case get_request_data e request_uri of
                     (out', Inl x) \<Rightarrow> (out @ out', Inl x)
                   | (out', Inr (request_data, request_mime_type)) \<Rightarrow>
                       (let response =
                              (if request_data \<noteq> [] then
                                 generate_ok_response e request_data request_mime_type
                               else generate_not_found_response)
                        in (out @ out' @ [Send response, CloseClient], Inr ())))))"

text \<open>
  The \<open>while True\<close> loop. Only \<open>KeyboardInterrupt\<close> is caught; every other exception,
  \<open>SystemExit\<close> included, leaves the loop and \<open>run_server\<close>.
\<close>

fun accept_loop :: "env \<Rightarrow> event list \<Rightarrow> effect list \<times> status" where
  "accept_loop e [] = ([], Blocked)"
| "accept_loop e (Interrupt # evs) = ([Print ''[!] Keyboard interrupt!'', CloseServer], Returned)"
| "accept_loop e (AcceptTimeout # evs) = ([], Raised TimeoutError)"
| "accept_loop e (Connection sent # evs) =
     (case serve_connection e sent of
        (out, Inl x) \<Rightarrow> (out, Raised x)
      | (out, Inr u) \<Rightarrow>
          (case accept_loop e evs of
             (out', st) \<Rightarrow> (out @ out', st)))"

definition run_server :: "env \<Rightarrow> string \<Rightarrow> int \<Rightarrow> event list \<Rightarrow> effect list \<times> status" where
  "run_server e host port evs =
     (case bind_error e host port of
        Some x \<Rightarrow> ([], Raised x)
      | None \<Rightarrow>
          (case accept_loop e evs of
             (out, st) \<Rightarrow>
               (Bind host port
                  # Print (''[!] Server is listening on port '' @ str_int port @ ''.'')
                  # out, st)))"

text \<open>The \<open>__main__\<close> block; \<open>argv\<close> is \<open>sys.argv\<close>, the program name first.\<close>

definition main :: "env \<Rightarrow> string list \<Rightarrow> event list \<Rightarrow> effect list \<times> status" where
  "main e argv evs =
     (if length argv \<noteq> 3 then
        ([Print ''USage: http-server.py <HOST> <PORT>''], Raised (SystemExit 1))
      else
        (case getitem argv 1 of
           Inl x \<Rightarrow> ([], Raised x)
         | Inr host \<Rightarrow>
             (case getitem argv 2 of
                Inl x \<Rightarrow> ([], Raised x)
              | Inr a \<Rightarrow>
                  (case py_int e a of
                     None \<Rightarrow> ([], Raised ValueError)
                   | Some port \<Rightarrow> run_server e host port evs))))"

text \<open>The exit status of the interpreter for each way the program can end.\<close>

fun exit_status :: "status \<Rightarrow> int option" where
  "exit_status Blocked = None"
| "exit_status Returned = Some 0"
| "exit_status (Raised (SystemExit n)) = Some n"
| "exit_status (Raised x) = Some 1"

section \<open>Notions used to state the properties\<close>

text \<open>The number a string of decimal digits denotes; \<open>None\<close> for anything else.\<close>

definition digit_val :: "char \<Rightarrow> nat option" where
  "digit_val c =
     (let k = (of_char c :: nat)
      in if 48 \<le> k \<and> k \<le> 57 then Some (k - 48) else None)"

fun parse_decimal_from :: "nat \<Rightarrow> string \<Rightarrow> nat option" where
  "parse_decimal_from acc [] = Some acc"
| "parse_decimal_from acc (c # cs) =
     (case digit_val c of
        None \<Rightarrow> None
      | Some d \<Rightarrow> parse_decimal_from (10 * acc + d) cs)"

definition parse_decimal :: "string \<Rightarrow> nat option" where
  "parse_decimal s = (if s = [] then None else parse_decimal_from 0 s)"

text \<open>The number of lines of a text in which every line ends with a newline.\<close>

definition line_count :: "string \<Rightarrow> nat" where
  "line_count s = length (filter (\<lambda>c. c = LF) s)"

text \<open>The first line of a response, without its line end.\<close>

definition status_line :: "bytes \<Rightarrow> string" where
  "status_line response = takeWhile (\<lambda>c. c \<noteq> CR) response"

text \<open>
  The not-found response as the specification words it: the Content-Length value is the
  decimal length of the fixed body.
\<close>

definition spec_not_found_response :: bytes where
  "spec_not_found_response =
     ''HTTP/1.1 404 Not Found'' @ CRLF @ ''Connection: close'' @ CRLF
       @ ''Content-Type: text/html'' @ CRLF
       @ ''Content-Length: '' @ str_nat (length not_found_page) @ CRLF @ CRLF
       @ not_found_page"

subsection \<open>A small concrete system\<close>

text \<open>
  A root directory with a page, an empty file, a directory with two entries, an empty
  directory, a directory that cannot be listed, a file that cannot be opened, a directory
  with an entry whose name is not UTF-8, and a file outside the root that a \<open>..\<close>
  segment reaches.
\<close>

definition demo_fs :: "string \<Rightarrow> node option" where
  "demo_fs path =
     (if path = ''public/index.html'' then Some (File ''<p>hi</p>'')
      else if path = ''public/empty.txt'' then Some (File [])
      else if path = ''public/docs'' then Some (Dir [''a.txt'', ''b.txt''])
      else if path = ''public/void'' then Some (Dir [])
      else if path = ''public/locked'' then Some NoAccessDir
      else if path = ''public/private.txt'' then Some NoAccessFile
      else if path = ''public/odd'' then Some (Dir [''a.txt'', [CHR 0xFF]])
      else if path = ''public/../secret.txt'' then Some (File ''top secret'')
      else None)"

definition demo_guess :: "string \<Rightarrow> string option \<times> string option" where
  "demo_guess path =
     (if path = ''public/index.html'' then (Some ''text/html'', None)
      else if path = ''public/empty.txt'' \<or> path = ''public/../secret.txt''
              \<or> path = ''public/private.txt''
        then (Some ''text/plain'', None)
      else (None, None))"

definition demo_env :: env where
  "demo_env =
     \<lparr> fs = demo_fs,
       guess_type = demo_guess,
       repr = (\<lambda>s. [CHR 0x27] @ s @ [CHR 0x27]),
       py_int = (\<lambda>s. if s = ''8080'' then Some 8080 else None),
       bind_error = (\<lambda>host port. None) \<rparr>"

section \<open>Basic facts\<close>

subsection \<open>Splitting and listing\<close>

lemma split_on_not_Nil: "split_on sep s \<noteq> []"
  by (induction s) (auto split: list.splits)

lemma split_on_no_sep: "sep \<notin> set s \<Longrightarrow> split_on sep s = [s]"
  by (induction s) auto

lemma split_on_length_sep: "sep \<in> set s \<Longrightarrow> 2 \<le> length (split_on sep s)"
  by (induction s) (auto split: list.splits simp: split_on_not_Nil)

lemma split_on_short: "length (split_on sep s) < 2 \<Longrightarrow> split_on sep s = [s]"
  using split_on_length_sep [of sep s] split_on_no_sep [of sep s] by fastforce

lemma listing_eq:
  "listing files (d, m) =
     (if list_all (\<lambda>f. encodable (f @ [LF])) files then
        Inr (d @ concat (map (\<lambda>f. f @ [LF]) files),
             if files = [] then m else PyStr ''text/plain'')
      else Inl UnicodeEncodeError)"
  by (induction files arbitrary: d m) (auto simp: encode_def)

subsection \<open>Resolver, by what the path names\<close>

lemma root_path_no_nul: "CHR 0x00 \<notin> set uri \<Longrightarrow> CHR 0x00 \<notin> set (ROOT_DIR @ uri)"
  by (simp add: ROOT_DIR_def)

lemma get_request_data_nul:
  assumes "CHR 0x00 \<in> set uri"
  shows "get_request_data e uri = ([], Inl ValueError)"
  using assms
  by (simp add: get_request_data_def os_path_isdir_def open_read_def except_OSError_def Let_def)

lemma get_request_data_file:
  assumes "CHR 0x00 \<notin> set uri" and "fs e (ROOT_DIR @ uri) = Some (File bs)"
  shows "get_request_data e uri =
           ([], Inr (bs, PyTuple (fst (guess_type e (ROOT_DIR @ uri)))
                                 (snd (guess_type e (ROOT_DIR @ uri)))))"
  using assms(2) root_path_no_nul [OF assms(1)]
  by (simp add: get_request_data_def os_path_isdir_def open_read_def Let_def)

lemma get_request_data_dir:
  assumes "CHR 0x00 \<notin> set uri" and "fs e (ROOT_DIR @ uri) = Some (Dir names)"
  shows "get_request_data e uri =
           (if encodable (''Contents of '' @ ROOT_DIR @ uri @ [LF, LF])
               \<and> list_all (\<lambda>f. encodable (f @ [LF])) names
            then
              ([], Inr (''Contents of '' @ ROOT_DIR @ uri @ [LF, LF]
                          @ concat (map (\<lambda>f. f @ [LF]) names),
                        if names = [] then PyStr '''' else PyStr ''text/plain''))
            else ([], Inl UnicodeEncodeError))"
  using assms(2) root_path_no_nul [OF assms(1)]
  by (simp add: get_request_data_def os_path_isdir_def os_listdir_def listing_eq encode_def
        except_OSError_def Let_def)

lemma get_request_data_missing:
  assumes "CHR 0x00 \<notin> set uri" and "fs e (ROOT_DIR @ uri) = None"
  shows "get_request_data e uri =
           ([Print ''[!] Error: File does not exist.''], Inr ([], PyStr ''''))"
  using assms(2) root_path_no_nul [OF assms(1)]
  by (simp add: get_request_data_def os_path_isdir_def open_read_def except_OSError_def Let_def)

lemma get_request_data_noaccess_file:
  assumes "CHR 0x00 \<notin> set uri" and "fs e (ROOT_DIR @ uri) = Some NoAccessFile"
  shows "get_request_data e uri =
           ([Print ''[!] Error: File does not exist.''], Inr ([], PyStr ''''))"
  using assms(2) root_path_no_nul [OF assms(1)]
  by (simp add: get_request_data_def os_path_isdir_def open_read_def except_OSError_def Let_def)

lemma get_request_data_noaccess_dir:
  assumes "CHR 0x00 \<notin> set uri" and "fs e (ROOT_DIR @ uri) = Some NoAccessDir"
  shows "get_request_data e uri =
           (if encodable (''Contents of '' @ ROOT_DIR @ uri @ [LF, LF]) then
              ([Print ''[!] Error: File does not exist.''],
               Inr (''Contents of '' @ ROOT_DIR @ uri @ [LF, LF], PyStr ''''))
            else ([], Inl UnicodeEncodeError))"
  using assms(2) root_path_no_nul [OF assms(1)]
  by (simp add: get_request_data_def os_path_isdir_def os_listdir_def encode_def
        except_OSError_def Let_def)

subsection \<open>Parser\<close>

lemma parse_request_line_get:
  assumes "split_on CHR '' '' request = ''GET'' # uri # rest"
  shows "parse_request_line request = ([], Inr uri)"
  using assms by (simp add: parse_request_line_def getitem_def)


lemma parse_request_line_short:
  assumes "split_on CHR '' '' request = [''GET'']"
  shows "parse_request_line request = ([], Inl IndexError)"
  using assms by (simp add: parse_request_line_def getitem_def)

subsection \<open>One connection\<close>

lemma serve_connection_raises:
  assumes "decode (take PACKET_SIZE sent) = Inr request"
    and "parse_request_line request = (out, Inl x)"
  shows "serve_connection e sent = (out, Inl x)"
  using assms by (simp add: serve_connection_def)

lemma serve_connection_get:
  assumes "decode (take PACKET_SIZE sent) = Inr request"
    and "split_on CHR '' '' request = ''GET'' # uri # rest"
    and "get_request_data e uri = (out, Inr (d, m))"
  shows "serve_connection e sent =
           (out @ [Send (if d \<noteq> [] then generate_ok_response e d m
                         else generate_not_found_response), CloseClient], Inr ())"
  using assms by (simp add: serve_connection_def parse_request_line_get)



subsection \<open>Decimal numerals\<close>

lemma digit_cases:
  assumes "k < (10::nat)"
  shows "k = 0 \<or> k = 1 \<or> k = 2 \<or> k = 3 \<or> k = 4 \<or> k = 5 \<or> k = 6 \<or> k = 7 \<or> k = 8 \<or> k = 9"
  using assms by presburger

lemma digit_val_digit:
  assumes "k < 10"
  shows "digit_val (''0123456789'' ! k) = Some k"
  using digit_cases [OF assms] by (elim disjE) (simp_all add: digit_val_def)

lemma parse_decimal_from_snoc:
  "parse_decimal_from acc (cs @ [c]) =
     (case parse_decimal_from acc cs of
        None \<Rightarrow> None
      | Some v \<Rightarrow> (case digit_val c of None \<Rightarrow> None | Some d \<Rightarrow> Some (10 * v + d)))"
  by (induction cs arbitrary: acc) (auto split: option.splits)

lemma str_nat_not_Nil: "str_nat n \<noteq> []"
  by (subst str_nat.simps) simp

lemma parse_decimal_from_str_nat: "parse_decimal_from 0 (str_nat n) = Some n"
proof (induction n rule: str_nat.induct)
  case (1 n)
  show ?case
  proof (cases "n < 10")
    case True
    then show ?thesis
      by (subst str_nat.simps) (simp add: digit_val_digit)
  next
    case False
    then have ih: "parse_decimal_from 0 (str_nat (n div 10)) = Some (n div 10)"
      using "1.IH" by simp
    have "n mod 10 < 10" by simp
    then have d: "digit_val (''0123456789'' ! (n mod 10)) = Some (n mod 10)"
      by (rule digit_val_digit)
    show ?thesis
      using False by (subst str_nat.simps) (simp add: parse_decimal_from_snoc ih d)
  qed
qed

lemma parse_decimal_str_nat: "parse_decimal (str_nat n) = Some n"
  by (simp add: parse_decimal_def str_nat_not_Nil parse_decimal_from_str_nat)

section \<open>Further facts about the resolver and the listener\<close>

lemma line_count_append: "line_count (a @ b) = line_count a + line_count b"
  by (simp add: line_count_def)

lemma line_count_no_newline: "LF \<notin> set s \<Longrightarrow> line_count s = 0"
  by (induction s) (auto simp: line_count_def)

lemma line_count_entries:
  "(\<And>n. n \<in> set names \<Longrightarrow> LF \<notin> set n) \<Longrightarrow>
     line_count (concat (map (\<lambda>f. f @ [LF]) names)) = length names"
proof (induction names)
  case Nil
  show ?case by (simp add: line_count_def)
next
  case (Cons n names)
  have a: "line_count n = 0"
    using Cons.prems by (simp add: line_count_no_newline)
  have b: "line_count [LF] = 1"
    by (simp add: line_count_def)
  have c: "line_count (concat (map (\<lambda>f. f @ [LF]) names)) = length names"
    using Cons by simp
  have "concat (map (\<lambda>f. f @ [LF]) (n # names)) = n @ [LF] @ concat (map (\<lambda>f. f @ [LF]) names)"
    by simp
  then have "line_count (concat (map (\<lambda>f. f @ [LF]) (n # names)))
      = line_count n + (line_count [LF] + line_count (concat (map (\<lambda>f. f @ [LF]) names)))"
    by (simp only: line_count_append)
  then show ?case
    by (simp only: a b c) simp
qed

lemma directory_listing_lines:
  assumes "CHR 0x00 \<notin> set uri"
    and "fs e (ROOT_DIR @ uri) = Some (Dir names)"
    and "encodable (''Contents of '' @ ROOT_DIR @ uri @ [LF, LF])"
    and "list_all (\<lambda>f. encodable (f @ [LF])) names"
    and "LF \<notin> set uri"
    and "\<And>n. n \<in> set names \<Longrightarrow> LF \<notin> set n"
  shows "\<exists>m. snd (get_request_data e uri) =
               Inr (''Contents of '' @ ROOT_DIR @ uri @ [LF, LF] @ concat (map (\<lambda>f. f @ [LF]) names), m)"
    and "line_count (''Contents of '' @ ROOT_DIR @ uri @ [LF, LF] @ concat (map (\<lambda>f. f @ [LF]) names))
           = length names + 2"
proof -
  show "\<exists>m. snd (get_request_data e uri) =
               Inr (''Contents of '' @ ROOT_DIR @ uri @ [LF, LF] @ concat (map (\<lambda>f. f @ [LF]) names), m)"
    using get_request_data_dir [OF assms(1,2)] assms(3,4) by simp
  define header where "header = ''Contents of '' @ ROOT_DIR @ uri"
  have "LF \<notin> set header"
    using assms(5) by (simp add: header_def ROOT_DIR_def LF_def)
  then have h: "line_count header = 0"
    by (rule line_count_no_newline)
  have b: "line_count [LF, LF] = 2"
    by (simp add: line_count_def)
  have c: "line_count (concat (map (\<lambda>f. f @ [LF]) names)) = length names"
    using assms(6) by (rule line_count_entries)
  have "line_count (header @ [LF, LF] @ concat (map (\<lambda>f. f @ [LF]) names))
          = 0 + (2 + length names)"
    by (simp only: line_count_append h b c)
  then show "line_count (''Contents of '' @ ROOT_DIR @ uri @ [LF, LF] @ concat (map (\<lambda>f. f @ [LF]) names))
           = length names + 2"
    by (simp add: header_def)
qed

lemma directory_content_type:
  assumes "CHR 0x00 \<notin> set uri"
    and "fs e (ROOT_DIR @ uri) = Some (Dir names)"
    and "encodable (''Contents of '' @ ROOT_DIR @ uri @ [LF, LF])"
    and "list_all (\<lambda>f. encodable (f @ [LF])) names"
    and "names \<noteq> []"
  shows "\<exists>d. snd (get_request_data e uri) = Inr (d, PyStr ''text/plain'')"
  using get_request_data_dir [OF assms(1,2)] assms(3,4,5) by simp

lemma directory_name_not_encodable:
  assumes "CHR 0x00 \<notin> set uri"
    and "fs e (ROOT_DIR @ uri) = Some (Dir names)"
    and "\<not> list_all (\<lambda>f. encodable (f @ [LF])) names"
    and "decode (take PACKET_SIZE sent) = Inr request"
    and "split_on CHR '' '' request = ''GET'' # uri # rest"
  shows "get_request_data e uri = ([], Inl UnicodeEncodeError)"
    and "serve_connection e sent = ([], Inl UnicodeEncodeError)"
    and "accept_loop e (Connection sent # evs) = ([], Raised UnicodeEncodeError)"
proof -
  show g: "get_request_data e uri = ([], Inl UnicodeEncodeError)"
    using get_request_data_dir [OF assms(1,2)] assms(3) by simp
  show s: "serve_connection e sent = ([], Inl UnicodeEncodeError)"
    using assms(4,5) g by (simp add: serve_connection_def parse_request_line_get)
  show "accept_loop e (Connection sent # evs) = ([], Raised UnicodeEncodeError)"
    by (simp add: s)
qed

lemma undecodable_name_example:
  "get_request_data demo_env ''/odd'' = ([], Inl UnicodeEncodeError)
   \<and> accept_loop demo_env [Connection ''GET /odd HTTP/1.1'', Connection ''GET /docs HTTP/1.1'']
       = ([], Raised UnicodeEncodeError)"
  by code_simp

lemma file_round_trip:
  assumes "CHR 0x00 \<notin> set uri"
    and "fs e (ROOT_DIR @ uri) = Some (File bs)"
    and "decode (take PACKET_SIZE sent) = Inr request"
    and "split_on CHR '' '' request = ''GET'' # uri # rest"
    and "bs \<noteq> []"
  shows "serve_connection e sent =
           ([Send (''HTTP/1.1 OK 200'' @ CRLF @ ''Connection: close'' @ CRLF
                   @ ''Content-Type: ''
                     @ format_value (repr e)
                         (PyTuple (fst (guess_type e (ROOT_DIR @ uri)))
                                  (snd (guess_type e (ROOT_DIR @ uri)))) @ CRLF
                   @ ''Content-Length: '' @ str_nat (length bs) @ CRLF @ CRLF @ bs),
             CloseClient], Inr ())"
proof -
  let ?m = "PyTuple (fst (guess_type e (ROOT_DIR @ uri))) (snd (guess_type e (ROOT_DIR @ uri)))"
  have g: "get_request_data e uri = ([], Inr (bs, ?m))"
    using assms(1,2) by (rule get_request_data_file)
  have s: "serve_connection e sent =
          ([] @ [Send (if bs \<noteq> [] then generate_ok_response e bs ?m
                       else generate_not_found_response), CloseClient], Inr ())"
    using assms(3,4) g by (rule serve_connection_get)
  show ?thesis
    using s assms(5) by (simp add: generate_ok_response_def)
qed

lemma empty_file_not_found:
  assumes "CHR 0x00 \<notin> set uri"
    and "fs e (ROOT_DIR @ uri) = Some (File [])"
    and "decode (take PACKET_SIZE sent) = Inr request"
    and "split_on CHR '' '' request = ''GET'' # uri # rest"
  shows "serve_connection e sent = ([Send generate_not_found_response, CloseClient], Inr ())"
proof -
  let ?m = "PyTuple (fst (guess_type e (ROOT_DIR @ uri))) (snd (guess_type e (ROOT_DIR @ uri)))"
  have g: "get_request_data e uri = ([], Inr ([], ?m))"
    using assms(1,2) by (rule get_request_data_file)
  show ?thesis
    using serve_connection_get [OF assms(3,4) g] by simp
qed

lemma empty_data_not_found:
  assumes "decode (take PACKET_SIZE sent) = Inr request"
    and "split_on CHR '' '' request = ''GET'' # uri # rest"
    and "get_request_data e uri = (out, Inr ([], m))"
  shows "serve_connection e sent = (out @ [Send generate_not_found_response, CloseClient], Inr ())"
  using serve_connection_get [OF assms] by simp

lemma empty_result_iff:
  assumes "CHR 0x00 \<notin> set uri"
  shows "(snd (get_request_data e uri) = Inr ([], PyStr ''''))
           = (fs e (ROOT_DIR @ uri) = None \<or> fs e (ROOT_DIR @ uri) = Some NoAccessFile)"
proof (cases "fs e (ROOT_DIR @ uri)")
  case None
  then show ?thesis
    using get_request_data_missing [OF assms] by simp
next
  case (Some n)
  then show ?thesis
    using get_request_data_file [OF assms] get_request_data_dir [OF assms]
      get_request_data_noaccess_file [OF assms] get_request_data_noaccess_dir [OF assms]
    by (cases n) simp_all
qed

section \<open>The claims\<close>

text \<open>
  Claim C1. A GET request for a path that does not exist is answered with the fixed HTML
  body, status \<open>404 Not Found\<close>, \<open>Content-Type: text/html\<close>, and a Content-Length whose
  value is the computed length of the body. Evaluated on the program: the status line, the
  content type and the body are as stated, but the Content-Length value is the text
  \<open>{len(not_found_page)}\<close>, not \<open>32\<close>; the response differs from the one the
  specification describes.
\<close>

theorem not_found_content_length_is_placeholder:
  "generate_not_found_response =
     ''HTTP/1.1 404 Not Found'' @ CRLF @ ''Connection: close'' @ CRLF
       @ ''Content-Type: text/html'' @ CRLF
       @ ''Content-Length: {len(not_found_page)}'' @ CRLF @ CRLF
       @ ''<html><h1>Not found!</h1></html>''
   \<and> spec_not_found_response =
     ''HTTP/1.1 404 Not Found'' @ CRLF @ ''Connection: close'' @ CRLF
       @ ''Content-Type: text/html'' @ CRLF
       @ ''Content-Length: 32'' @ CRLF @ CRLF
       @ ''<html><h1>Not found!</h1></html>''
   \<and> generate_not_found_response \<noteq> spec_not_found_response
   \<and> fs demo_env ''public/missing'' = None
   \<and> serve_connection demo_env ''GET /missing HTTP/1.1'' =
       ([Print ''[!] Error: File does not exist.'', Send generate_not_found_response, CloseClient],
        Inr ())"
  by code_simp

text \<open>
  Claim C2, as the program has it. A GET request for an existing regular file that can be
  opened and is not empty is answered with the success status, the Content-Length header
  is the decimal length of the file, and the body is the bytes of the file. An empty file
  is answered with the not-found response: the listener takes empty data as the sign that
  nothing was found.
\<close>

theorem nonempty_file_round_trip:
  assumes "CHR 0x00 \<notin> set uri"
    and "fs e (ROOT_DIR @ uri) = Some (File bs)"
    and "decode (take PACKET_SIZE sent) = Inr request"
    and "split_on CHR '' '' request = ''GET'' # uri # rest"
  shows "(bs \<noteq> [] \<longrightarrow>
            serve_connection e sent =
              ([Send (''HTTP/1.1 OK 200'' @ CRLF @ ''Connection: close'' @ CRLF
                      @ ''Content-Type: ''
                        @ format_value (repr e)
                            (PyTuple (fst (guess_type e (ROOT_DIR @ uri)))
                                     (snd (guess_type e (ROOT_DIR @ uri)))) @ CRLF
                      @ ''Content-Length: '' @ str_nat (length bs) @ CRLF @ CRLF @ bs),
                CloseClient], Inr ())
            \<and> parse_decimal (str_nat (length bs)) = Some (length bs))
       \<and> (bs = [] \<longrightarrow>
            serve_connection e sent = ([Send generate_not_found_response, CloseClient], Inr ()))"
  using file_round_trip [OF assms(1,2,3,4)] empty_file_not_found [OF assms(1) _ assms(3,4)] assms(2)
  by (simp add: parse_decimal_str_nat)

theorem nonempty_file_round_trip_witness:
  "CHR 0x00 \<notin> set ''/index.html''
   \<and> fs demo_env (ROOT_DIR @ ''/index.html'') = Some (File ''<p>hi</p>'')
   \<and> decode (take PACKET_SIZE ''GET /index.html HTTP/1.1'') = Inr ''GET /index.html HTTP/1.1''
   \<and> split_on CHR '' '' ''GET /index.html HTTP/1.1'' = ''GET'' # ''/index.html'' # [''HTTP/1.1'']
   \<and> ''<p>hi</p>'' \<noteq> []
   \<and> serve_connection demo_env ''GET /index.html HTTP/1.1'' =
        ([Send (''HTTP/1.1 OK 200'' @ CRLF @ ''Connection: close'' @ CRLF
                @ ''Content-Type: ('' @ [CHR 0x27] @ ''text/html'' @ [CHR 0x27] @ '', None)'' @ CRLF
                @ ''Content-Length: 9'' @ CRLF @ CRLF
                @ ''<p>hi</p>''),
          CloseClient], Inr ())
   \<and> parse_decimal ''9'' = Some (length ''<p>hi</p>'')
   \<and> CHR 0x00 \<notin> set ''/empty.txt''
   \<and> fs demo_env (ROOT_DIR @ ''/empty.txt'') = Some (File [])
   \<and> decode (take PACKET_SIZE ''GET /empty.txt HTTP/1.1'') = Inr ''GET /empty.txt HTTP/1.1''
   \<and> split_on CHR '' '' ''GET /empty.txt HTTP/1.1'' = ''GET'' # ''/empty.txt'' # [''HTTP/1.1'']
   \<and> serve_connection demo_env ''GET /empty.txt HTTP/1.1'' =
        ([Send generate_not_found_response, CloseClient], Inr ())"
proof -
  have z: "CHR 0x00 \<notin> set ''/index.html''"
    by simp
  have f: "fs demo_env (ROOT_DIR @ ''/index.html'') = Some (File ''<p>hi</p>'')"
    by (simp add: demo_env_def demo_fs_def ROOT_DIR_def)
  have d: "decode (take PACKET_SIZE ''GET /index.html HTTP/1.1'') = Inr ''GET /index.html HTTP/1.1''"
    by (simp add: decode_def PACKET_SIZE_def)
  have t: "split_on CHR '' '' ''GET /index.html HTTP/1.1'' = ''GET'' # ''/index.html'' # [''HTTP/1.1'']"
    by simp
  have n: "''<p>hi</p>'' \<noteq> []"
    by simp
  have g: "guess_type demo_env (ROOT_DIR @ ''/index.html'') = (Some ''text/html'', None)"
    by (simp add: demo_env_def demo_guess_def ROOT_DIR_def)
  have r: "repr demo_env = (\<lambda>s. [CHR 0x27] @ s @ [CHR 0x27])"
    by (simp add: demo_env_def)
  have full: "serve_connection demo_env ''GET /index.html HTTP/1.1'' =
        ([Send (''HTTP/1.1 OK 200'' @ CRLF @ ''Connection: close'' @ CRLF
                @ ''Content-Type: ('' @ [CHR 0x27] @ ''text/html'' @ [CHR 0x27] @ '', None)'' @ CRLF
                @ ''Content-Length: 9'' @ CRLF @ CRLF
                @ ''<p>hi</p>''),
          CloseClient], Inr ())
      \<and> parse_decimal ''9'' = Some (length ''<p>hi</p>'')"
    using n nonempty_file_round_trip [OF z f d t]
    by (auto simp add: g r str_nat.simps)
  have z': "CHR 0x00 \<notin> set ''/empty.txt''"
    by simp
  have f': "fs demo_env (ROOT_DIR @ ''/empty.txt'') = Some (File [])"
    by (simp add: demo_env_def demo_fs_def ROOT_DIR_def)
  have d': "decode (take PACKET_SIZE ''GET /empty.txt HTTP/1.1'') = Inr ''GET /empty.txt HTTP/1.1''"
    by (simp add: decode_def PACKET_SIZE_def)
  have t': "split_on CHR '' '' ''GET /empty.txt HTTP/1.1'' = ''GET'' # ''/empty.txt'' # [''HTTP/1.1'']"
    by simp
  have empty: "serve_connection demo_env ''GET /empty.txt HTTP/1.1'' =
        ([Send generate_not_found_response, CloseClient], Inr ())"
    using nonempty_file_round_trip [OF z' f' d' t'] by simp
  show ?thesis
    using z f d t n full z' f' d' t' empty by simp
qed

text \<open>
  Claim C2 as stated includes the file whose contents are empty. For that file the resolver
  returns empty data and the response sent has the status line of the not-found response.
\<close>

theorem empty_file_answered_not_found:
  "fs demo_env ''public/empty.txt'' = Some (File [])
   \<and> get_request_data demo_env ''/empty.txt'' = ([], Inr ([], PyTuple (Some ''text/plain'') None))
   \<and> serve_connection demo_env ''GET /empty.txt HTTP/1.1'' =
       ([Send generate_not_found_response, CloseClient], Inr ())
   \<and> status_line generate_not_found_response = ''HTTP/1.1 404 Not Found''
   \<and> status_line generate_not_found_response \<noteq> ''HTTP/1.1 OK 200''"
  by code_simp



text \<open>
  Claim C4. A GET request for an existing directory, an empty one included, is answered with
  a listing of (number of entries) + 2 lines and content type \<open>text/plain\<close>. Evaluated on
  the program for an empty directory: the listing has the 2 lines, but the content type is
  the empty string, because \<open>request_mime_type\<close> is assigned inside the loop over the
  entries.
\<close>

theorem empty_directory_content_type_empty:
  "fs demo_env ''public/void'' = Some (Dir [])
   \<and> get_request_data demo_env ''/void'' =
       ([], Inr (''Contents of public/void'' @ [LF, LF], PyStr ''''))
   \<and> line_count (''Contents of public/void'' @ [LF, LF]) = length ([] :: string list) + 2
   \<and> serve_connection demo_env ''GET /void HTTP/1.1'' =
       ([Send (''HTTP/1.1 OK 200'' @ CRLF @ ''Connection: close'' @ CRLF
               @ ''Content-Type: '' @ CRLF
               @ ''Content-Length: 25'' @ CRLF @ CRLF
               @ ''Contents of public/void'' @ [LF, LF]),
         CloseClient], Inr ())"
  by code_simp

text \<open>
  Claim C5. The resolver returns empty bytes and an empty content type exactly when the path
  does not exist or cannot be opened, and empty bytes are answered with the not-found
  response. Evaluated on the program for a directory whose listing fails: the handler of
  \<open>OSError\<close> runs, but the header of the listing was appended before, so the data are not
  empty and the listener answers with the success response.
\<close>

theorem unlistable_directory_answered_ok:
  "fs demo_env ''public/locked'' = Some NoAccessDir
   \<and> get_request_data demo_env ''/locked'' =
       ([Print ''[!] Error: File does not exist.''],
        Inr (''Contents of public/locked'' @ [LF, LF], PyStr ''''))
   \<and> serve_connection demo_env ''GET /locked HTTP/1.1'' =
       ([Print ''[!] Error: File does not exist.'',
         Send (''HTTP/1.1 OK 200'' @ CRLF @ ''Connection: close'' @ CRLF
               @ ''Content-Type: '' @ CRLF
               @ ''Content-Length: 27'' @ CRLF @ CRLF
               @ ''Contents of public/locked'' @ [LF, LF]),
         CloseClient], Inr ())"
  by code_simp


text \<open>
  Claim C7. The resolver looks up exactly the root directory followed by the URI as given:
  its result is determined by what that one string names, whatever the URI contains, and
  no URI is normalised or refused by the program. The only URIs that produce no result are
  those the Python runtime itself stops on: one with a NUL character, which no file system
  call accepts, and, for a directory, a path or an entry name that \<open>.encode()\<close> cannot
  encode. A URI with a \<open>..\<close> segment is looked up like any other, as the last conjunct
  shows on a file outside the root.
\<close>

theorem get_request_data_verbatim_path:
  "get_request_data e uri =
     (if CHR 0x00 \<in> set uri then ([], Inl ValueError)
      else
        (case fs e (''public'' @ uri) of
           None \<Rightarrow> ([Print ''[!] Error: File does not exist.''], Inr ([], PyStr ''''))
         | Some (File bs) \<Rightarrow>
             ([], Inr (bs, PyTuple (fst (guess_type e (''public'' @ uri)))
                                   (snd (guess_type e (''public'' @ uri)))))
         | Some (Dir names) \<Rightarrow>
             (if encodable (''Contents of public'' @ uri @ [LF, LF])
                 \<and> list_all (\<lambda>f. encodable (f @ [LF])) names
              then
                ([], Inr (''Contents of public'' @ uri @ [LF, LF]
                            @ concat (map (\<lambda>f. f @ [LF]) names),
                          if names = [] then PyStr '''' else PyStr ''text/plain''))
              else ([], Inl UnicodeEncodeError))
         | Some NoAccessFile \<Rightarrow>
             ([Print ''[!] Error: File does not exist.''], Inr ([], PyStr ''''))
         | Some NoAccessDir \<Rightarrow>
             (if encodable (''Contents of public'' @ uri @ [LF, LF]) then
                ([Print ''[!] Error: File does not exist.''],
                 Inr (''Contents of public'' @ uri @ [LF, LF], PyStr ''''))
              else ([], Inl UnicodeEncodeError))))
   \<and> get_request_data demo_env ''/../secret.txt'' =
       ([], Inr (''top secret'', PyTuple (Some ''text/plain'') None))"
proof -
  have example: "get_request_data demo_env ''/../secret.txt'' =
      ([], Inr (''top secret'', PyTuple (Some ''text/plain'') None))"
    by code_simp
  show ?thesis
  proof (cases "CHR 0x00 \<in> set uri")
    case True
    then show ?thesis
      using example by (simp add: get_request_data_nul)
  next
    case False
    show ?thesis
    proof (cases "fs e (''public'' @ uri)")
      case None
      then show ?thesis
        using False example get_request_data_missing [OF False, of e]
        by (simp add: ROOT_DIR_def)
    next
      case (Some n)
      then show ?thesis
        using False example
          get_request_data_file [OF False, of e] get_request_data_dir [OF False, of e]
          get_request_data_noaccess_file [OF False, of e]
          get_request_data_noaccess_dir [OF False, of e]
        by (cases n) (simp_all add: ROOT_DIR_def)
    qed
  qed
qed

text \<open>
  Claim C8. A request with fewer than two space-separated tokens whose first token is
  \<open>GET\<close> (it can only be the string \<open>GET\<close>) makes the parser fail with \<open>IndexError\<close>: no
  URI is returned, nothing is sent, and nothing catches the exception.
\<close>

theorem lone_get_token_index_fault:
  assumes "decode (take PACKET_SIZE sent) = Inr request"
    and "length (split_on CHR '' '' request) < 2"
    and "getitem (split_on CHR '' '' request) 0 = Inr ''GET''"
  shows "request = ''GET''
       \<and> parse_request_line request = ([], Inl IndexError)
       \<and> serve_connection e sent = ([], Inl IndexError)
       \<and> accept_loop e (Connection sent # evs) = ([], Raised IndexError)"
proof -
  have one: "split_on CHR '' '' request = [request]"
    using assms(2) by (rule split_on_short)
  then have r: "request = ''GET''"
    using assms(3) by (simp add: getitem_def)
  have p: "parse_request_line request = ([], Inl IndexError)"
    using one r by (simp add: parse_request_line_short)
  have s: "serve_connection e sent = ([], Inl IndexError)"
    using assms(1) p by (rule serve_connection_raises)
  show ?thesis
    using r p s by simp
qed

theorem lone_get_token_index_fault_witness:
  "decode (take PACKET_SIZE ''GET'') = Inr ''GET''
   \<and> length (split_on CHR '' '' ''GET'') < 2
   \<and> getitem (split_on CHR '' '' ''GET'') 0 = Inr ''GET''
   \<and> parse_request_line ''GET'' = ([], Inl IndexError)
   \<and> accept_loop demo_env (Connection ''GET'' # [Connection ''GET /docs HTTP/1.1'']) =
        ([], Raised IndexError)"
proof -
  have d: "decode (take PACKET_SIZE ''GET'') = Inr ''GET''"
    by (simp add: decode_def PACKET_SIZE_def)
  have l: "length (split_on CHR '' '' ''GET'') < 2"
    by simp
  have g: "getitem (split_on CHR '' '' ''GET'') 0 = Inr ''GET''"
    by (simp add: getitem_def)
  show ?thesis
    using d l g lone_get_token_index_fault [OF d l g, of demo_env "[Connection ''GET /docs HTTP/1.1'']"]
    by simp
qed

text \<open>
  Claim C9. When \<open>sys.argv\<close> does not hold exactly the program name and two arguments, the
  program prints the usage line and exits with status 1, and that is all it does; a socket
  is bound only when there are exactly two arguments.
\<close>

theorem main_argument_count:
  "(length argv \<noteq> 3 \<longrightarrow>
      main e argv evs = ([Print ''USage: http-server.py <HOST> <PORT>''], Raised (SystemExit 1))
      \<and> exit_status (snd (main e argv evs)) = Some 1)
   \<and> (Bind host port \<in> set (fst (main e argv evs)) \<longrightarrow> length argv = 3)"
proof (cases "length argv = 3")
  case True
  then show ?thesis by simp
next
  case False
  then show ?thesis by (simp add: main_def)
qed

theorem main_argument_count_witness:
  "length [''http-server.py'', ''localhost''] \<noteq> 3
   \<and> main demo_env [''http-server.py'', ''localhost''] [Connection ''GET / HTTP/1.1''] =
       ([Print ''USage: http-server.py <HOST> <PORT>''], Raised (SystemExit 1))
   \<and> Bind ''localhost'' 8080 \<in> set (fst (main demo_env [''http-server.py'', ''localhost'', ''8080''] []))
   \<and> length [''http-server.py'', ''localhost'', ''8080''] = 3"
proof -
  have a: "length [''http-server.py'', ''localhost''] \<noteq> 3"
    by simp
  have b: "Bind ''localhost'' 8080 \<in> set (fst (main demo_env [''http-server.py'', ''localhost'', ''8080''] []))"
    by (simp add: main_def getitem_def run_server_def demo_env_def)
  show ?thesis
    using a b
      main_argument_count [of "[''http-server.py'', ''localhost'']" demo_env "[Connection ''GET / HTTP/1.1'']" "''localhost''" 8080]
      main_argument_count [of "[''http-server.py'', ''localhost'', ''8080'']" demo_env "[]" "''localhost''" 8080]
    by simp
qed

text \<open>
  Claim C10, as the program has it. For an existing regular file that can be opened, the
  content type the resolver returns is the pair (type, encoding) of
  \<open>mimetypes.guess_type\<close>, not a string, and the Content-Type header of the success
  response built from it is the text of that pair: parenthesis, the \<open>repr\<close> of each
  component, comma and space between them. That response is what the listener sends for a
  GET request of the file when the file is not empty.
\<close>

theorem file_content_type_is_guess_tuple:
  assumes "CHR 0x00 \<notin> set uri"
    and "fs e (ROOT_DIR @ uri) = Some (File bs)"
  shows "get_request_data e uri =
           ([], Inr (bs, PyTuple (fst (guess_type e (ROOT_DIR @ uri)))
                                 (snd (guess_type e (ROOT_DIR @ uri)))))
       \<and> snd (get_request_data e uri) \<noteq> Inr (bs, PyStr s)
       \<and> generate_ok_response e bs
             (PyTuple (fst (guess_type e (ROOT_DIR @ uri))) (snd (guess_type e (ROOT_DIR @ uri)))) =
           ''HTTP/1.1 OK 200'' @ CRLF @ ''Connection: close'' @ CRLF
             @ ''Content-Type: (''
               @ repr_opt (repr e) (fst (guess_type e (ROOT_DIR @ uri)))
               @ '', ''
               @ repr_opt (repr e) (snd (guess_type e (ROOT_DIR @ uri)))
               @ '')'' @ CRLF
             @ ''Content-Length: '' @ str_nat (length bs) @ CRLF @ CRLF
             @ bs
       \<and> (decode (take PACKET_SIZE sent) = Inr request
            \<and> split_on CHR '' '' request = ''GET'' # uri # rest
            \<and> bs \<noteq> [] \<longrightarrow>
          serve_connection e sent =
            ([Send (generate_ok_response e bs
                      (PyTuple (fst (guess_type e (ROOT_DIR @ uri)))
                               (snd (guess_type e (ROOT_DIR @ uri))))),
              CloseClient], Inr ()))"
proof -
  let ?m = "PyTuple (fst (guess_type e (ROOT_DIR @ uri))) (snd (guess_type e (ROOT_DIR @ uri)))"
  have g: "get_request_data e uri = ([], Inr (bs, ?m))"
    using assms by (rule get_request_data_file)
  have s: "serve_connection e sent = ([Send (generate_ok_response e bs ?m), CloseClient], Inr ())"
    if "decode (take PACKET_SIZE sent) = Inr request"
      and "split_on CHR '' '' request = ''GET'' # uri # rest"
      and "bs \<noteq> []"
    using serve_connection_get [OF that(1,2) g] that(3) by simp
  show ?thesis
    using g s by (simp add: generate_ok_response_def)
qed

theorem file_content_type_is_guess_tuple_witness:
  "CHR 0x00 \<notin> set ''/index.html''
   \<and> fs demo_env (ROOT_DIR @ ''/index.html'') = Some (File ''<p>hi</p>'')
   \<and> decode (take PACKET_SIZE ''GET /index.html HTTP/1.1'') = Inr ''GET /index.html HTTP/1.1''
   \<and> split_on CHR '' '' ''GET /index.html HTTP/1.1'' = ''GET'' # ''/index.html'' # [''HTTP/1.1'']
   \<and> ''<p>hi</p>'' \<noteq> []
   \<and> get_request_data demo_env ''/index.html'' =
        ([], Inr (''<p>hi</p>'', PyTuple (Some ''text/html'') None))
   \<and> serve_connection demo_env ''GET /index.html HTTP/1.1'' =
        ([Send (''HTTP/1.1 OK 200'' @ CRLF @ ''Connection: close'' @ CRLF
                @ ''Content-Type: ('' @ [CHR 0x27] @ ''text/html'' @ [CHR 0x27] @ '', None)'' @ CRLF
                @ ''Content-Length: 9'' @ CRLF @ CRLF
                @ ''<p>hi</p>''),
          CloseClient], Inr ())"
proof -
  have z: "CHR 0x00 \<notin> set ''/index.html''"
    by simp
  have f: "fs demo_env (ROOT_DIR @ ''/index.html'') = Some (File ''<p>hi</p>'')"
    by (simp add: demo_env_def demo_fs_def ROOT_DIR_def)
  have d: "decode (take PACKET_SIZE ''GET /index.html HTTP/1.1'') = Inr ''GET /index.html HTTP/1.1''"
    by (simp add: decode_def PACKET_SIZE_def)
  have t: "split_on CHR '' '' ''GET /index.html HTTP/1.1'' = ''GET'' # ''/index.html'' # [''HTTP/1.1'']"
    by simp
  have n: "''<p>hi</p>'' \<noteq> []"
    by simp
  have g: "guess_type demo_env (ROOT_DIR @ ''/index.html'') = (Some ''text/html'', None)"
    by (simp add: demo_env_def demo_guess_def ROOT_DIR_def)
  have r: "repr demo_env = (\<lambda>s. [CHR 0x27] @ s @ [CHR 0x27])"
    by (simp add: demo_env_def)
  show ?thesis
    using z f d t n
      file_content_type_is_guess_tuple [OF z f, of "''text/html''" "''GET /index.html HTTP/1.1''"
        "''GET /index.html HTTP/1.1''" "[''HTTP/1.1'']"]
    by (auto simp add: g r str_nat.simps)
qed

text \<open>
  Claim C10 as stated covers every existing regular file. For a file that exists but cannot
  be opened, \<open>open\<close> raises an \<open>OSError\<close> before \<open>mimetypes.guess_type\<close> is reached: the
  content type the resolver returns is the empty string, not the pair the guesser gives for
  that path, and the request is answered with the not-found response.
\<close>

theorem unopenable_file_content_type_empty:
  "fs demo_env ''public/private.txt'' = Some NoAccessFile
   \<and> guess_type demo_env ''public/private.txt'' = (Some ''text/plain'', None)
   \<and> get_request_data demo_env ''/private.txt'' =
       ([Print ''[!] Error: File does not exist.''], Inr ([], PyStr ''''))
   \<and> snd (get_request_data demo_env ''/private.txt'') \<noteq>
       Inr ([], PyTuple (fst (guess_type demo_env ''public/private.txt''))
                        (snd (guess_type demo_env ''public/private.txt'')))
   \<and> serve_connection demo_env ''GET /private.txt HTTP/1.1'' =
       ([Print ''[!] Error: File does not exist.'', Send generate_not_found_response, CloseClient],
        Inr ())"
  by code_simp

end
